theory Spec2Isabelle
  imports Complex_Main "HOL-Library.List_Lexorder" "HOL-Library.Char_ord"
begin

section \<open>Values, records and errors\<close>

text \<open>
  A record of a result set is a Python dict from column names to scalars. The scalars
  are \<open>None\<close>, booleans, integers, floats and strings. Floats are idealised as real
  numbers: IEEE rounding, infinities and NaN are outside the model.
\<close>

datatype pyval = PNone | PBool bool | PInt int | PFloat real | PStr string

type_synonym row = "string \<rightharpoonup> pyval"

text \<open>
  Every exception the modelled code can raise is a value. \<open>StatisticsError\<close> is the
  exception of Python's \<open>statistics\<close> module, \<open>ReError\<close> is \<open>re.error\<close>.
\<close>

datatype error =
    ActivityFailed string
  | InvalidExperiment string
  | StatisticsError
  | TypeError
  | IndexError
  | ReError
  | OverflowError

text \<open>
  The numeric reading of a scalar: \<open>bool\<close> is a subclass of \<open>int\<close> in Python, so
  \<open>True\<close> counts as 1 and \<open>False\<close> as 0 in arithmetic and comparisons.
\<close>

fun num_of :: "pyval \<Rightarrow> real option" where
  "num_of (PBool b) = Some (if b then 1 else 0)"
| "num_of (PInt i) = Some (of_int i)"
| "num_of (PFloat x) = Some x"
| "num_of PNone = None"
| "num_of (PStr s) = None"

fun is_number :: "pyval \<Rightarrow> bool" where
  "is_number (PBool b) = True"
| "is_number (PInt i) = True"
| "is_number (PFloat x) = True"
| "is_number PNone = False"
| "is_number (PStr s) = False"

fun num_val :: "pyval \<Rightarrow> real" where
  "num_val (PBool b) = (if b then 1 else 0)"
| "num_val (PInt i) = of_int i"
| "num_val (PFloat x) = x"
| "num_val PNone = 0"
| "num_val (PStr s) = 0"

fun is_str :: "pyval \<Rightarrow> bool" where
  "is_str (PStr s) = True"
| "is_str PNone = False"
| "is_str (PBool b) = False"
| "is_str (PInt i) = False"
| "is_str (PFloat x) = False"

fun str_val :: "pyval \<Rightarrow> string" where
  "str_val (PStr s) = s"
| "str_val PNone = []"
| "str_val (PBool b) = []"
| "str_val (PInt i) = []"
| "str_val (PFloat x) = []"

text \<open>
  \<open>v / d\<close> for a float \<open>d\<close>: true division gives a float for every number and raises
  \<open>TypeError\<close> for \<open>None\<close> and for a string.
\<close>

definition py_truediv :: "pyval \<Rightarrow> real \<Rightarrow> error + pyval" where
  "py_truediv v d = (case num_of v of None \<Rightarrow> Inl TypeError | Some x \<Rightarrow> Inr (PFloat (x / d)))"

text \<open>
  \<open>a + b\<close>: integers (and booleans) add to an integer, a float operand makes the sum a
  float, two strings concatenate, anything else raises \<open>TypeError\<close>.
\<close>

fun is_intlike :: "pyval \<Rightarrow> bool" where
  "is_intlike (PBool b) = True"
| "is_intlike (PInt i) = True"
| "is_intlike (PFloat x) = False"
| "is_intlike PNone = False"
| "is_intlike (PStr s) = False"

fun int_val :: "pyval \<Rightarrow> int" where
  "int_val (PBool b) = (if b then 1 else 0)"
| "int_val (PInt i) = i"
| "int_val (PFloat x) = 0"
| "int_val PNone = 0"
| "int_val (PStr s) = 0"

definition py_add :: "pyval \<Rightarrow> pyval \<Rightarrow> error + pyval" where
  "py_add a b =
     (if is_intlike a \<and> is_intlike b then Inr (PInt (int_val a + int_val b))
      else if is_number a \<and> is_number b then Inr (PFloat (num_val a + num_val b))
      else if is_str a \<and> is_str b then Inr (PStr (str_val a @ str_val b))
      else Inl TypeError)"

text \<open>
  \<open>m <= t\<close> and \<open>m >= t\<close> against a float threshold: defined for numbers, a
  \<open>TypeError\<close> for \<open>None\<close> and for a string.
\<close>

definition py_le :: "pyval \<Rightarrow> real \<Rightarrow> error + bool" where
  "py_le m t = (case num_of m of None \<Rightarrow> Inl TypeError | Some x \<Rightarrow> Inr (x \<le> t))"

definition py_ge :: "pyval \<Rightarrow> real \<Rightarrow> error + bool" where
  "py_ge m t = (case num_of m of None \<Rightarrow> Inl TypeError | Some x \<Rightarrow> Inr (x \<ge> t))"

text \<open>
  \<open>q[i]\<close> on a list: a negative index counts from the end, an index out of range raises
  \<open>IndexError\<close>.
\<close>

definition py_index :: "'a list \<Rightarrow> int \<Rightarrow> error + 'a" where
  "py_index xs i =
     (if 0 \<le> i \<and> i < int (length xs) then Inr (xs ! nat i)
      else if i < 0 \<and> - int (length xs) \<le> i then Inr (xs ! nat (int (length xs) + i))
      else Inl IndexError)"

section \<open>The statistics library\<close>

text \<open>
  \<open>sorted(data)\<close> on a list of scalars. Python's sort is stable and compares with \<open><\<close>:
  numbers compare by value, strings lexicographically by code point, and a comparison
  that involves \<open>None\<close>, or a number and a string, raises \<open>TypeError\<close>. A list of fewer
  than two elements is returned without any comparison.
\<close>

definition sorted_py :: "pyval list \<Rightarrow> error + pyval list" where
  "sorted_py data =
     (if length data < 2 then Inr data
      else if list_all is_number data then Inr (sort_key num_val data)
      else if list_all is_str data then Inr (sort_key str_val data)
      else Inl TypeError)"

text \<open>
  Modelled from the spec: \<open>statistics.median\<close> belongs to Python's standard library and
  is not among the sources. The spec's median (the middle value for an odd length, the
  average of the two middle values for an even length, a failure on the empty list) is
  written the way the library computes it:
  \<^verbatim>\<open>
    data = sorted(data)
    n = len(data)
    if n == 0: raise StatisticsError("no median for empty data")
    if n % 2 == 1: return data[n // 2]
    else: i = n // 2; return (data[i - 1] + data[i]) / 2
  \<close>
\<close>

definition median :: "pyval list \<Rightarrow> error + pyval" where
  "median data0 =
     (case sorted_py data0 of
        Inl e \<Rightarrow> Inl e
      | Inr data \<Rightarrow>
          (let n = length data in
           if n = 0 then Inl StatisticsError
           else if n mod 2 = 1 then Inr (data ! (n div 2))
           else (let i = n div 2 in
                 case py_add (data ! (i - 1)) (data ! i) of
                   Inl e \<Rightarrow> Inl e
                 | Inr s \<Rightarrow> py_truediv s 2)))"

text \<open>
  Modelled from the spec: \<open>statistics.quantiles\<close> belongs to Python's standard library
  and is not among the sources. The spec's partition into a 100-quantile scheme, which
  needs at least two data points, is written the way the library computes it for
  \<open>quantiles(data, n=n)\<close> with the default method \<open>exclusive\<close> in Python 3.8 to 3.12:
  \<^verbatim>\<open>
    if n < 1: raise StatisticsError('n must be at least 1')
    data = sorted(data)
    ld = len(data)
    if ld < 2: raise StatisticsError('must have at least two data points')
    m = ld + 1
    result = []
    for i in range(1, n):
        j = i * m // n
        j = 1 if j < 1 else ld-1 if j > ld-1 else j
        delta = i*m - j*n
        interpolated = (data[j - 1] * (n - delta) + data[j] * delta) / n
        result.append(interpolated)
    return result
  \<close>
  The interpolation of two numbers is a float. With a string operand the products and
  the sum are strings and the division raises \<open>TypeError\<close>; with \<open>None\<close> the product
  raises \<open>TypeError\<close>.
\<close>

definition interpolated :: "pyval \<Rightarrow> pyval \<Rightarrow> int \<Rightarrow> int \<Rightarrow> error + pyval" where
  "interpolated a b n delta =
     (if is_number a \<and> is_number b
      then Inr (PFloat ((num_val a * of_int (n - delta) + num_val b * of_int delta) / of_int n))
      else Inl TypeError)"

definition cut_point :: "pyval list \<Rightarrow> int \<Rightarrow> int \<Rightarrow> error + pyval" where
  "cut_point data n i =
     (let ld = int (length data);
          m = ld + 1;
          j0 = i * m div n;
          j = (if j0 < 1 then 1 else if j0 > ld - 1 then ld - 1 else j0);
          delta = i * m - j * n
      in interpolated (data ! nat (j - 1)) (data ! nat j) n delta)"

text \<open>
  The cut points are computed in the order of \<open>range(1, n)\<close>; the first one that raises
  ends the call.
\<close>

fun collect :: "(error + 'a) list \<Rightarrow> error + 'a list" where
  "collect [] = Inr []"
| "collect (Inl e # rs) = Inl e"
| "collect (Inr x # rs) = (case collect rs of Inl e \<Rightarrow> Inl e | Inr xs \<Rightarrow> Inr (x # xs))"

definition quantiles :: "pyval list \<Rightarrow> int \<Rightarrow> error + pyval list" where
  "quantiles data0 n =
     (if n < 1 then Inl StatisticsError
      else case sorted_py data0 of
        Inl e \<Rightarrow> Inl e
      | Inr data \<Rightarrow>
          if length data < 2 then Inl StatisticsError
          else collect (map (cut_point data n) [1..n - 1]))"

section \<open>The tolerance evaluator\<close>

text \<open>
  Python's \<open>re\<close> module is a parameter \<open>re\<close> of the model: \<open>re pat\<close> is \<open>None\<close> when
  \<open>re.compile(pat)\<close> raises \<open>re.error\<close>, and \<open>Some m\<close> for a compiled pattern, where
  \<open>m s\<close> tells whether \<open>rgx.match(s)\<close> is a match object rather than \<open>None\<close>.
\<close>

type_synonym regex = "string \<Rightarrow> bool"
type_synonym re_lib = "string \<Rightarrow> regex option"

text \<open>
  The test of line 189,
  \<^verbatim>\<open>key and (key in r) and rgx and (rgx.match(r[key]) is None)\<close>:
  \<open>key\<close> and \<open>rgx\<close> are \<open>None\<close> without a target, an empty key is falsy, a compiled
  pattern is truthy, and \<open>rgx.match\<close> raises \<open>TypeError\<close> on a value that is not a
  string.
\<close>

definition target_excludes :: "string option \<Rightarrow> regex option \<Rightarrow> row \<Rightarrow> error + bool" where
  "target_excludes key rgx r =
     (case key of
        None \<Rightarrow> Inr False
      | Some k \<Rightarrow>
          if k = [] then Inr False
          else (case r k of
                  None \<Rightarrow> Inr False
                | Some x \<Rightarrow>
                    (case rgx of
                       None \<Rightarrow> Inr False
                     | Some m \<Rightarrow>
                         (case x of
                            PStr s \<Rightarrow> Inr (\<not> m s)
                          | _ \<Rightarrow> Inl TypeError))))"

text \<open>The unit conversion of lines 197 to 202.\<close>

definition convert :: "string option \<Rightarrow> pyval \<Rightarrow> error + pyval" where
  "convert convert_from_nanoseconds v =
     (if convert_from_nanoseconds = Some ''seconds'' then py_truediv v (10 ^ 9)
      else if convert_from_nanoseconds = Some ''milliseconds'' then py_truediv v (10 ^ 6)
      else if convert_from_nanoseconds = Some ''microseconds'' then py_truediv v (10 ^ 3)
      else Inr v)"

text \<open>The loop of \<open>group_values\<close> over the records, with the list \<open>values\<close> built so far.\<close>

fun group_values_loop ::
  "string option \<Rightarrow> regex option \<Rightarrow> string \<Rightarrow> string option \<Rightarrow> row list \<Rightarrow> pyval list
     \<Rightarrow> error + pyval list" where
  "group_values_loop key rgx column conv [] values = Inr values"
| "group_values_loop key rgx column conv (r # rs) values =
     (case target_excludes key rgx r of
        Inl e \<Rightarrow> Inl e
      | Inr True \<Rightarrow> group_values_loop key rgx column conv rs values
      | Inr False \<Rightarrow>
          (case r column of
             None \<Rightarrow> group_values_loop key rgx column conv rs values
           | Some v \<Rightarrow>
               (case convert conv v of
                  Inl e \<Rightarrow> Inl e
                | Inr v' \<Rightarrow> group_values_loop key rgx column conv rs (values @ [v']))))"

definition group_values ::
  "re_lib \<Rightarrow> row list \<Rightarrow> string \<Rightarrow> (string \<times> string) option \<Rightarrow> string option
     \<Rightarrow> error + pyval list" where
  "group_values re results column target convert_from_nanoseconds =
     (case target of
        None \<Rightarrow> group_values_loop None None column convert_from_nanoseconds results []
      | Some (k, pat) \<Rightarrow>
          (case re pat of
             None \<Rightarrow> Inl ReError
           | Some rgx \<Rightarrow>
               group_values_loop (Some k) (Some rgx) column convert_from_nanoseconds results []))"

text \<open>
  The four tolerances. Only \<open>StatisticsError\<close> is caught and turned into
  \<open>ActivityFailed\<close>; every other exception propagates. The parameters stand in the
  order of each signature, after the regular-expression library. The record set
  \<open>value\<close> is the list the host framework passes in, and the threshold is a float.
\<close>

definition median_should_be_below ::
  "re_lib \<Rightarrow> string \<Rightarrow> real \<Rightarrow> string option \<Rightarrow> (string \<times> string) option \<Rightarrow> row list
     \<Rightarrow> error + bool" where
  "median_should_be_below re column treshold convert_from_nanoseconds target value =
     (case group_values re value column target convert_from_nanoseconds of
        Inl e \<Rightarrow> Inl e
      | Inr values \<Rightarrow>
          (case median values of
             Inl StatisticsError \<Rightarrow> Inl (ActivityFailed ''failed to compute median'')
           | Inl e \<Rightarrow> Inl e
           | Inr m \<Rightarrow> py_le m treshold))"

definition median_should_be_above ::
  "re_lib \<Rightarrow> string \<Rightarrow> real \<Rightarrow> (string \<times> string) option \<Rightarrow> string option \<Rightarrow> row list
     \<Rightarrow> error + bool" where
  "median_should_be_above re column treshold target convert_from_nanoseconds value =
     (case group_values re value column target convert_from_nanoseconds of
        Inl e \<Rightarrow> Inl e
      | Inr values \<Rightarrow>
          (case median values of
             Inl StatisticsError \<Rightarrow> Inl (ActivityFailed ''failed to compute median'')
           | Inl e \<Rightarrow> Inl e
           | Inr m \<Rightarrow> py_ge m treshold))"

text \<open>
  The \<open>try\<close> block of the percentile tolerances holds \<open>quantiles(values, n=100)\<close> and the
  indexing \<open>q[percentile - 1]\<close>; an \<open>IndexError\<close> of the latter is not caught.
\<close>

definition percentile_of :: "pyval list \<Rightarrow> int \<Rightarrow> error + pyval" where
  "percentile_of values percentile =
     (case quantiles values 100 of
        Inl StatisticsError \<Rightarrow> Inl (ActivityFailed ''failed to compute percentiles'')
      | Inl e \<Rightarrow> Inl e
      | Inr q \<Rightarrow> py_index q (percentile - 1))"

definition percentile_should_be_below ::
  "re_lib \<Rightarrow> string \<Rightarrow> real \<Rightarrow> int \<Rightarrow> (string \<times> string) option \<Rightarrow> string option \<Rightarrow> row list
     \<Rightarrow> error + bool" where
  "percentile_should_be_below re column treshold percentile target convert_from_nanoseconds value =
     (case group_values re value column target convert_from_nanoseconds of
        Inl e \<Rightarrow> Inl e
      | Inr values \<Rightarrow>
          (case percentile_of values percentile of
             Inl e \<Rightarrow> Inl e
           | Inr q \<Rightarrow> py_le q treshold))"

definition percentile_should_be_above ::
  "re_lib \<Rightarrow> string \<Rightarrow> real \<Rightarrow> int \<Rightarrow> (string \<times> string) option \<Rightarrow> string option \<Rightarrow> row list
     \<Rightarrow> error + bool" where
  "percentile_should_be_above re column treshold percentile target convert_from_nanoseconds value =
     (case group_values re value column target convert_from_nanoseconds of
        Inl e \<Rightarrow> Inl e
      | Inr values \<Rightarrow>
          (case percentile_of values percentile of
             Inl e \<Rightarrow> Inl e
           | Inr q \<Rightarrow> py_ge q treshold))"

section \<open>The tolerances as state transformers\<close>

text \<open>
  The record set \<open>value\<close> is a list object of dict objects that the caller shares with
  the tolerance. To speak about what a call leaves behind in it, the same code is read
  once more with the record set threaded through as state: every function returns its
  outcome together with the record set as it stands when the function returns or
  raises. The \<open>for\<close> loop reads the live list at the position \<open>i\<close> of its iterator;
  \<open>values\<close> is a list of the function's own, and \<open>median\<close> and \<open>quantiles\<close> sort a
  copy of it (\<open>sorted\<close>).
\<close>

function group_values_loop_st ::
  "string option \<Rightarrow> regex option \<Rightarrow> string \<Rightarrow> string option \<Rightarrow> nat \<Rightarrow> row list \<Rightarrow> pyval list
     \<Rightarrow> (error + pyval list) \<times> row list" where
  "group_values_loop_st key rgx column conv i results values =
     (if i < length results then
        (let r = results ! i in
         case target_excludes key rgx r of
           Inl e \<Rightarrow> (Inl e, results)
         | Inr True \<Rightarrow> group_values_loop_st key rgx column conv (i + 1) results values
         | Inr False \<Rightarrow>
             (case r column of
                None \<Rightarrow> group_values_loop_st key rgx column conv (i + 1) results values
              | Some v \<Rightarrow>
                  (case convert conv v of
                     Inl e \<Rightarrow> (Inl e, results)
                   | Inr v' \<Rightarrow>
                       group_values_loop_st key rgx column conv (i + 1) results (values @ [v']))))
      else (Inr values, results))"
  by pat_completeness auto
termination
  by (relation "measure (\<lambda>(key, rgx, column, conv, i, results, acc). length results - i)") auto

declare group_values_loop_st.simps [simp del]

definition group_values_st ::
  "re_lib \<Rightarrow> row list \<Rightarrow> string \<Rightarrow> (string \<times> string) option \<Rightarrow> string option
     \<Rightarrow> (error + pyval list) \<times> row list" where
  "group_values_st re results column target convert_from_nanoseconds =
     (case target of
        None \<Rightarrow> group_values_loop_st None None column convert_from_nanoseconds 0 results []
      | Some (k, pat) \<Rightarrow>
          (case re pat of
             None \<Rightarrow> (Inl ReError, results)
           | Some rgx \<Rightarrow>
               group_values_loop_st (Some k) (Some rgx) column convert_from_nanoseconds 0 results []))"

definition median_should_be_below_st ::
  "re_lib \<Rightarrow> string \<Rightarrow> real \<Rightarrow> string option \<Rightarrow> (string \<times> string) option \<Rightarrow> row list
     \<Rightarrow> (error + bool) \<times> row list" where
  "median_should_be_below_st re column treshold convert_from_nanoseconds target value =
     (case group_values_st re value column target convert_from_nanoseconds of
        (Inl e, value') \<Rightarrow> (Inl e, value')
      | (Inr values, value') \<Rightarrow>
          (case median values of
             Inl StatisticsError \<Rightarrow> (Inl (ActivityFailed ''failed to compute median''), value')
           | Inl e \<Rightarrow> (Inl e, value')
           | Inr m \<Rightarrow> (py_le m treshold, value')))"

definition median_should_be_above_st ::
  "re_lib \<Rightarrow> string \<Rightarrow> real \<Rightarrow> (string \<times> string) option \<Rightarrow> string option \<Rightarrow> row list
     \<Rightarrow> (error + bool) \<times> row list" where
  "median_should_be_above_st re column treshold target convert_from_nanoseconds value =
     (case group_values_st re value column target convert_from_nanoseconds of
        (Inl e, value') \<Rightarrow> (Inl e, value')
      | (Inr values, value') \<Rightarrow>
          (case median values of
             Inl StatisticsError \<Rightarrow> (Inl (ActivityFailed ''failed to compute median''), value')
           | Inl e \<Rightarrow> (Inl e, value')
           | Inr m \<Rightarrow> (py_ge m treshold, value')))"

definition percentile_should_be_below_st ::
  "re_lib \<Rightarrow> string \<Rightarrow> real \<Rightarrow> int \<Rightarrow> (string \<times> string) option \<Rightarrow> string option \<Rightarrow> row list
     \<Rightarrow> (error + bool) \<times> row list" where
  "percentile_should_be_below_st re column treshold percentile target convert_from_nanoseconds value =
     (case group_values_st re value column target convert_from_nanoseconds of
        (Inl e, value') \<Rightarrow> (Inl e, value')
      | (Inr values, value') \<Rightarrow>
          (case percentile_of values percentile of
             Inl e \<Rightarrow> (Inl e, value')
           | Inr q \<Rightarrow> (py_le q treshold, value')))"

definition percentile_should_be_above_st ::
  "re_lib \<Rightarrow> string \<Rightarrow> real \<Rightarrow> int \<Rightarrow> (string \<times> string) option \<Rightarrow> string option \<Rightarrow> row list
     \<Rightarrow> (error + bool) \<times> row list" where
  "percentile_should_be_above_st re column treshold percentile target convert_from_nanoseconds value =
     (case group_values_st re value column target convert_from_nanoseconds of
        (Inl e, value') \<Rightarrow> (Inl e, value')
      | (Inr values, value') \<Rightarrow>
          (case percentile_of values percentile of
             Inl e \<Rightarrow> (Inl e, value')
           | Inr q \<Rightarrow> (py_ge q treshold, value')))"

section \<open>Result acquisition\<close>

text \<open>
  \<open>get_auth\<close> reads the process environment (\<open>os.getenv(name, default)\<close>), the
  configuration and the secrets (\<open>getenv\<close> with a default that may be \<open>None\<close>,
  \<open>get_or\<close> for a lookup whose default is a string); \<open>configuration or {}\<close> replaces a missing dict by an
  empty one. The default server URL is a constant of the \<open>pxapi\<close> client and a
  parameter here. The values of the three dicts are strings.
\<close>

record auth =
  px_cluster_id :: string
  px_key :: string
  px_server_url :: string

definition getenv :: "(string \<rightharpoonup> string) \<Rightarrow> string \<Rightarrow> string option \<Rightarrow> string option" where
  "getenv environ name dflt = (case environ name of Some v \<Rightarrow> Some v | None \<Rightarrow> dflt)"

definition get_or :: "(string \<rightharpoonup> string) \<Rightarrow> string \<Rightarrow> string \<Rightarrow> string" where
  "get_or d name dflt = (case d name of Some v \<Rightarrow> v | None \<Rightarrow> dflt)"

definition or_empty :: "(string \<rightharpoonup> string) option \<Rightarrow> (string \<rightharpoonup> string)" where
  "or_empty d = (case d of None \<Rightarrow> Map.empty | Some m \<Rightarrow> m)"

text \<open>The messages of the two \<open>InvalidExperiment\<close> exceptions.\<close>

definition missing_cluster_id :: string where
  "missing_cluster_id = ''missing the Pixie cluster id. Set it either in the configuration '' @
     ''as `pixie_cluster_id` or via the PIXIE_CLUSTER_ID environment '' @ ''variable.''"

definition missing_api_key :: string where
  "missing_api_key = ''missing the Pixie API key. Set it either in the secrets '' @
     ''as `px_key` or via the PIXIE_API_KEY environment variable.''"

definition get_auth ::
  "string \<Rightarrow> (string \<rightharpoonup> string) \<Rightarrow> (string \<rightharpoonup> string) option \<Rightarrow> (string \<rightharpoonup> string) option
     \<Rightarrow> error + auth" where
  "get_auth default_pixie_url environ configuration0 secrets0 =
     (let configuration = or_empty configuration0;
          secrets = or_empty secrets0;
          cluster_id = getenv environ ''PIXIE_CLUSTER_ID'' (configuration ''pixie_cluster_id'');
          key = getenv environ ''PIXIE_API_KEY'' (secrets ''api_key'')
      in case cluster_id of
           None \<Rightarrow> Inl (InvalidExperiment missing_cluster_id)
         | Some cid \<Rightarrow>
             if cid = [] then Inl (InvalidExperiment missing_cluster_id)
             else (case key of
                     None \<Rightarrow> Inl (InvalidExperiment missing_api_key)
                   | Some k \<Rightarrow>
                       if k = [] then Inl (InvalidExperiment missing_api_key)
                       else Inr \<lparr>px_cluster_id = cid, px_key = k,
                                 px_server_url =
                                   get_or environ ''PIXIE_SERVER_URL''
                                     (get_or configuration ''px_server_url'' default_pixie_url)\<rparr>))"

text \<open>
  \<open>connect\<close> resolves the parameters and hands them to the \<open>pxapi\<close> client, which is
  the parameter \<open>connect_to_cluster\<close>.
\<close>

definition connect ::
  "(auth \<Rightarrow> error + 'conn) \<Rightarrow> string \<Rightarrow> (string \<rightharpoonup> string) \<Rightarrow> (string \<rightharpoonup> string) option
     \<Rightarrow> (string \<rightharpoonup> string) option \<Rightarrow> error + 'conn" where
  "connect connect_to_cluster default_pixie_url environ configuration secrets =
     (case get_auth default_pixie_url environ configuration secrets of
        Inl e \<Rightarrow> Inl e
      | Inr a \<Rightarrow> connect_to_cluster a)"

















section \<open>A small regular-expression library\<close>

text \<open>
  An instance of the parameter \<open>re\<close> for the concrete evaluations below: patterns of
  literal characters, \<open>.\<close> for any character and a postfix \<open>*\<close>, matched at the start of
  the string as \<open>rgx.match\<close> does. A \<open>*\<close> with nothing to repeat does not compile. The
  general theorems hold for every \<open>re\<close>.
\<close>

fun re_match_here :: "string \<Rightarrow> string \<Rightarrow> bool" where
  "re_match_here [] s = True"
| "re_match_here [c] s = (case s of [] \<Rightarrow> False | x # s' \<Rightarrow> c = CHR ''.'' \<or> c = x)"
| "re_match_here (c # d # p) s =
     (if d = CHR ''*''
      then (re_match_here p s \<or>
            (case s of [] \<Rightarrow> False
             | x # s' \<Rightarrow> (c = CHR ''.'' \<or> c = x) \<and> re_match_here (c # d # p) s'))
      else (case s of [] \<Rightarrow> False
            | x # s' \<Rightarrow> (c = CHR ''.'' \<or> c = x) \<and> re_match_here (d # p) s'))"

fun star_ok :: "string \<Rightarrow> bool" where
  "star_ok [] = True"
| "star_ok [c] = (c \<noteq> CHR ''*'')"
| "star_ok (c # d # p) =
     (c \<noteq> CHR ''*'' \<and> (if d = CHR ''*'' then star_ok p else star_ok (d # p)))"

definition re_lite :: re_lib where
  "re_lite pat = (if star_ok pat then Some (re_match_here pat) else None)"

section \<open>The median of the specification\<close>

text \<open>
  The specification's median of a list of numbers, in its own words: the middle value of
  the sorted list when the length is odd, the average of the two middle values when it
  is even. It is compared below with what \<open>median\<close> computes.
\<close>

definition statistical_median :: "real list \<Rightarrow> real" where
  "statistical_median xs =
     (if odd (length xs) then sort xs ! (length xs div 2)
      else (sort xs ! (length xs div 2 - 1) + sort xs ! (length xs div 2)) / 2)"

section \<open>The extraction loop\<close>

text \<open>
  The loop only ever appends to \<open>values\<close>: started with a list \<open>acc\<close> it returns \<open>acc\<close>
  followed by what it returns when started with the empty list.
\<close>

lemma group_values_loop_acc:
  "group_values_loop key rgx column conv rs acc =
     (case group_values_loop key rgx column conv rs [] of
        Inl e \<Rightarrow> Inl e | Inr ys \<Rightarrow> Inr (acc @ ys))"
proof (induction rs arbitrary: acc)
  case Nil
  show ?case by simp
next
  case (Cons r rs)
  have a: "\<And>v. group_values_loop key rgx column conv rs (acc @ [v]) =
     (case group_values_loop key rgx column conv rs [] of
        Inl e \<Rightarrow> Inl e | Inr ys \<Rightarrow> Inr (acc @ v # ys))"
    by (subst Cons.IH) (simp split: sum.split)
  have b: "\<And>v. group_values_loop key rgx column conv rs [v] =
     (case group_values_loop key rgx column conv rs [] of
        Inl e \<Rightarrow> Inl e | Inr ys \<Rightarrow> Inr (v # ys))"
    by (subst Cons.IH) (simp split: sum.split)
  show ?case
    by (simp add: a b Cons.IH [of acc] split: sum.split bool.split option.split)
qed

lemma group_values_loop_Cons:
  "group_values_loop key rgx column conv (r # rs) [] =
     (case target_excludes key rgx r of
        Inl e \<Rightarrow> Inl e
      | Inr True \<Rightarrow> group_values_loop key rgx column conv rs []
      | Inr False \<Rightarrow>
          (case r column of
             None \<Rightarrow> group_values_loop key rgx column conv rs []
           | Some v \<Rightarrow>
               (case convert conv v of
                  Inl e \<Rightarrow> Inl e
                | Inr v' \<Rightarrow>
                    (case group_values_loop key rgx column conv rs [] of
                       Inl e \<Rightarrow> Inl e
                     | Inr ys \<Rightarrow> Inr (v' # ys)))))"
  by (simp add: group_values_loop_acc [of _ _ _ _ _ "[_]"]
        split: sum.split bool.split option.split)

lemma group_values_loop_Nil_iff:
  "group_values_loop key rgx column conv rs [] = Inr [] \<longleftrightarrow>
     (\<forall>r \<in> set rs. target_excludes key rgx r = Inr True \<or>
        (target_excludes key rgx r = Inr False \<and> r column = None))"
proof (induction rs)
  case Nil
  show ?case by simp
next
  case (Cons r rs)
  show ?case
    unfolding group_values_loop_Cons
    using Cons.IH
    by (auto split: sum.split bool.split option.split)
qed

lemma median_Nil: "median [] = Inl StatisticsError"
  by (simp add: median_def sorted_py_def)

lemma quantiles_short: "length vs < 2 \<Longrightarrow> quantiles vs 100 = Inl StatisticsError"
  by (simp add: quantiles_def sorted_py_def)

lemma percentile_of_short:
  "length vs < 2 \<Longrightarrow> percentile_of vs p = Inl (ActivityFailed ''failed to compute percentiles'')"
  by (simp add: percentile_of_def quantiles_short)

lemma re_lite_consumer: "re_lite ''/consumer.*'' = Some (re_match_here ''/consumer.*'')"
  by (simp add: re_lite_def)

section \<open>Empty extractions\<close>

text \<open>
  C1. When the extracted value list is empty, each of the four tolerances raises
  \<open>ActivityFailed\<close>: the median tolerances with the message "failed to compute median",
  the percentile tolerances with "failed to compute percentiles". None of them returns
  a boolean. By \<open>group_values_loop_Nil_iff\<close> the list is empty exactly when every
  record is excluded by the target or passes it and lacks the column, which covers
  the empty record set.
\<close>

theorem empty_extraction_raises:
  assumes "group_values re value column target conv = Inr []"
  shows "median_should_be_below re column t conv target value =
           Inl (ActivityFailed ''failed to compute median'') \<and>
         median_should_be_above re column t target conv value =
           Inl (ActivityFailed ''failed to compute median'') \<and>
         percentile_should_be_below re column t p target conv value =
           Inl (ActivityFailed ''failed to compute percentiles'') \<and>
         percentile_should_be_above re column t p target conv value =
           Inl (ActivityFailed ''failed to compute percentiles'')"
  using assms
  by (simp add: median_should_be_below_def median_should_be_above_def
        percentile_should_be_below_def percentile_should_be_above_def
        median_Nil percentile_of_short)

theorem empty_extraction_raises_witness:
  "group_values re_lite
     [[''latency'' \<mapsto> PFloat (9 / 10), ''pod'' \<mapsto> PStr ''/producer/3''], [''something'' \<mapsto> PInt 1]]
     ''latency'' (Some (''pod'', ''/consumer.*'')) None = Inr [] \<and>
   median_should_be_below re_lite ''latency'' 1 None (Some (''pod'', ''/consumer.*''))
     [[''latency'' \<mapsto> PFloat (9 / 10), ''pod'' \<mapsto> PStr ''/producer/3''], [''something'' \<mapsto> PInt 1]] =
     Inl (ActivityFailed ''failed to compute median'') \<and>
   percentile_should_be_above re_lite ''latency'' 1 99 (Some (''pod'', ''/consumer.*'')) None
     [[''latency'' \<mapsto> PFloat (9 / 10), ''pod'' \<mapsto> PStr ''/producer/3''], [''something'' \<mapsto> PInt 1]] =
     Inl (ActivityFailed ''failed to compute percentiles'')"
proof -
  have h: "group_values re_lite
     [[''latency'' \<mapsto> PFloat (9 / 10), ''pod'' \<mapsto> PStr ''/producer/3''], [''something'' \<mapsto> PInt 1]]
     ''latency'' (Some (''pod'', ''/consumer.*'')) None = Inr []"
    by (simp add: group_values_def re_lite_consumer target_excludes_def)
  show ?thesis
    using h empty_extraction_raises [OF h, of 1 99] by simp
qed


section \<open>The target filter\<close>

lemma target_excludes_True_iff:
  "target_excludes key rgx r = Inr True \<longleftrightarrow>
     (\<exists>k m s. key = Some k \<and> k \<noteq> [] \<and> rgx = Some m \<and> r k = Some (PStr s) \<and> \<not> m s)"
  by (auto simp: target_excludes_def split: option.splits pyval.splits)

lemma re_lite_a: "re_lite ''a'' = Some (re_match_here ''a'')"
  by (simp add: re_lite_def)

text \<open>
  C2, as amended. The filter step skips a record exactly when a target with a
  non-empty key is given, the record holds a string under that key, and the compiled
  pattern does not match that string. Without a target, and for a record that lacks
  the key, the record is retained by the filter step. A skipped record leaves the
  loop before its column is read; a retained record that has the column contributes
  its converted value.
\<close>

theorem target_filter_skips:
  "(target_excludes key rgx r = Inr True \<longleftrightarrow>
      (\<exists>k m s. key = Some k \<and> k \<noteq> [] \<and> rgx = Some m \<and> r k = Some (PStr s) \<and> \<not> m s)) \<and>
   (key = None \<or> rgx = None \<longrightarrow> target_excludes key rgx r = Inr False) \<and>
   (key = Some k \<and> r k = None \<longrightarrow> target_excludes key rgx r = Inr False) \<and>
   (target_excludes key rgx r = Inr True \<longrightarrow>
      group_values_loop key rgx column conv (r # rs) acc =
      group_values_loop key rgx column conv rs acc) \<and>
   (target_excludes key rgx r = Inr False \<and> r column = Some v \<and> convert conv v = Inr v' \<longrightarrow>
      group_values_loop key rgx column conv (r # rs) acc =
      group_values_loop key rgx column conv rs (acc @ [v']))"
proof -
  have c1: "target_excludes key rgx r = Inr True \<longleftrightarrow>
      (\<exists>k m s. key = Some k \<and> k \<noteq> [] \<and> rgx = Some m \<and> r k = Some (PStr s) \<and> \<not> m s)"
    by (rule target_excludes_True_iff)
  have c2: "key = None \<or> rgx = None \<longrightarrow> target_excludes key rgx r = Inr False"
    by (auto simp: target_excludes_def split: option.splits)
  have c3: "key = Some k \<and> r k = None \<longrightarrow> target_excludes key rgx r = Inr False"
    by (auto simp: target_excludes_def split: option.splits)
  have c4: "target_excludes key rgx r = Inr True \<longrightarrow>
      group_values_loop key rgx column conv (r # rs) acc =
      group_values_loop key rgx column conv rs acc"
    by simp
  have c5: "target_excludes key rgx r = Inr False \<and> r column = Some v \<and> convert conv v = Inr v' \<longrightarrow>
      group_values_loop key rgx column conv (r # rs) acc =
      group_values_loop key rgx column conv rs (acc @ [v'])"
    by simp
  show ?thesis
    using c1 c2 c3 c4 c5 by blast
qed

theorem target_filter_skips_witness:
  "target_excludes (Some ''pod'') (re_lite ''/consumer.*'')
     [''latency'' \<mapsto> PFloat (9 / 10), ''pod'' \<mapsto> PStr ''/producer/3''] = Inr True \<and>
   target_excludes (Some ''pod'') (re_lite ''/consumer.*'') [''latency'' \<mapsto> PFloat (1 / 2)] = Inr False \<and>
   group_values re_lite
     [[''latency'' \<mapsto> PFloat (9 / 10), ''pod'' \<mapsto> PStr ''/producer/3''],
      [''latency'' \<mapsto> PFloat (1 / 2)]]
     ''latency'' (Some (''pod'', ''/consumer.*'')) None = Inr [PFloat (1 / 2)]"
proof -
  let ?r1 = "[''latency'' \<mapsto> PFloat (9 / 10), ''pod'' \<mapsto> PStr ''/producer/3'']"
  let ?r2 = "[''latency'' \<mapsto> PFloat (1 / 2)]"
  let ?rgx = "Some (re_match_here ''/consumer.*'')"
  have m: "\<exists>k m s. Some ''pod'' = Some k \<and> k \<noteq> [] \<and> ?rgx = Some m \<and>
             ?r1 k = Some (PStr s) \<and> \<not> m s"
    by (rule exI [of _ "''pod''"], rule exI [of _ "re_match_here ''/consumer.*''"],
        rule exI [of _ "''/producer/3''"]) simp
  have e1: "target_excludes (Some ''pod'') ?rgx ?r1 = Inr True"
    using target_filter_skips [where key = "Some ''pod''" and rgx = ?rgx and r = ?r1] m by blast
  have e2: "target_excludes (Some ''pod'') ?rgx ?r2 = Inr False"
    using target_filter_skips [where key = "Some ''pod''" and rgx = ?rgx and r = ?r2 and k = "''pod''"]
    by simp
  have s1: "group_values_loop (Some ''pod'') ?rgx ''latency'' None [?r1, ?r2] [] =
            group_values_loop (Some ''pod'') ?rgx ''latency'' None [?r2] []"
    using target_filter_skips [where key = "Some ''pod''" and rgx = ?rgx and r = ?r1] e1 by blast
  have s2: "group_values_loop (Some ''pod'') ?rgx ''latency'' None [?r2] [] =
            group_values_loop (Some ''pod'') ?rgx ''latency'' None [] ([] @ [PFloat (1 / 2)])"
    using target_filter_skips [where key = "Some ''pod''" and rgx = ?rgx and r = ?r2
        and column = "''latency''" and v = "PFloat (1 / 2)" and conv = None and v' = "PFloat (1 / 2)"
        and rs = "[]" and acc = "[]"] e2
    by (simp add: convert_def)
  show ?thesis
    using e1 e2 s1 s2 by (simp add: group_values_def re_lite_consumer)
qed

text \<open>
  The claim as stated fails for the empty key, which line 189 treats as no key at all:
  the record below has the key, its value does not match the pattern, and it is
  retained.
\<close>

theorem empty_key_counterexample:
  "[[] \<mapsto> PStr ''b'', ''latency'' \<mapsto> PInt 1] [] = Some (PStr ''b'') \<and>
   re_lite ''a'' = Some (re_match_here ''a'') \<and>
   \<not> re_match_here ''a'' ''b'' \<and>
   group_values re_lite [[[] \<mapsto> PStr ''b'', ''latency'' \<mapsto> PInt 1]] ''latency''
     (Some ([], ''a'')) None = Inr [PInt 1]"
  by (simp add: group_values_def re_lite_a target_excludes_def convert_def)


lemma target_excludes_cases:
  "target_excludes key rgx r = Inl e \<Longrightarrow> e = TypeError"
  by (auto simp: target_excludes_def split: option.splits pyval.splits if_splits)

lemma convert_error: "convert conv v = Inl e \<Longrightarrow> e = TypeError"
  by (auto simp: convert_def py_truediv_def split: if_splits option.splits)

lemma group_values_loop_error:
  "group_values_loop key rgx column conv rs acc = Inl e \<Longrightarrow> e = TypeError"
proof (induction rs arbitrary: acc)
  case Nil
  then show ?case by simp
next
  case (Cons r rs)
  then show ?case
    by (auto split: sum.splits bool.splits option.splits
          dest: target_excludes_cases convert_error)
qed

lemma target_excludes_not_str:
  "k \<noteq> [] \<Longrightarrow> r k = Some x \<Longrightarrow> \<not> is_str x \<Longrightarrow>
     target_excludes (Some k) (Some m) r = Inl TypeError"
  by (cases x) (simp_all add: target_excludes_def)

lemma group_values_loop_not_str:
  "k \<noteq> [] \<Longrightarrow> r \<in> set rs \<Longrightarrow> r k = Some x \<Longrightarrow> \<not> is_str x \<Longrightarrow>
     group_values_loop (Some k) (Some m) column conv rs acc = Inl TypeError"
proof (induction rs arbitrary: acc)
  case Nil
  then show ?case by simp
next
  case (Cons a rs)
  show ?case
  proof (cases "a = r")
    case True
    then show ?thesis
      using Cons.prems by (simp add: target_excludes_not_str)
  next
    case False
    then have "r \<in> set rs" using Cons.prems by simp
    then have ih: "\<And>acc. group_values_loop (Some k) (Some m) column conv rs acc = Inl TypeError"
      using Cons.IH Cons.prems by blast
    show ?thesis
      by (auto simp: ih split: sum.splits bool.splits option.splits
            dest: target_excludes_cases convert_error)
  qed
qed

lemma re_lite_5: "re_lite ''5'' = Some (re_match_here ''5'')"
  by (simp add: re_lite_def)

text \<open>
  C6, as amended. The match test takes the record's value at the key as it is: a
  string is matched against the pattern and the record is retained or excluded by the
  result; a value that is not a string (a number, a boolean, \<open>None\<close>) is not turned
  into one, and the extraction raises \<open>TypeError\<close> whenever the record set holds such a
  record.
\<close>

theorem target_match_on_strings_only:
  "(k \<noteq> [] \<and> r k = Some (PStr s) \<longrightarrow>
      target_excludes (Some k) (Some m) r = Inr (\<not> m s)) \<and>
   (k \<noteq> [] \<and> re pat = Some m \<and> r \<in> set results \<and> r k = Some x \<and> \<not> is_str x \<longrightarrow>
      group_values re results column (Some (k, pat)) conv = Inl TypeError)"
proof -
  have a: "k \<noteq> [] \<and> r k = Some (PStr s) \<longrightarrow>
      target_excludes (Some k) (Some m) r = Inr (\<not> m s)"
    by (simp add: target_excludes_def)
  have b: "k \<noteq> [] \<and> re pat = Some m \<and> r \<in> set results \<and> r k = Some x \<and> \<not> is_str x \<longrightarrow>
      group_values re results column (Some (k, pat)) conv = Inl TypeError"
    by (auto simp: group_values_def group_values_loop_not_str)
  show ?thesis using a b by blast
qed

theorem target_match_on_strings_only_witness:
  "target_excludes (Some ''pod'') (Some (re_match_here ''5'')) [''pod'' \<mapsto> PStr ''5''] = Inr False \<and>
   target_excludes (Some ''pod'') (Some (re_match_here ''5'')) [''pod'' \<mapsto> PStr ''6''] = Inr True \<and>
   group_values re_lite [[''latency'' \<mapsto> PInt 1], [''pod'' \<mapsto> PFloat 5]] ''latency''
     (Some (''pod'', ''5'')) None = Inl TypeError"
  using target_match_on_strings_only [where k = "''pod''" and r = "[''pod'' \<mapsto> PStr ''5'']"
          and s = "''5''" and m = "re_match_here ''5''"]
        target_match_on_strings_only [where k = "''pod''" and r = "[''pod'' \<mapsto> PStr ''6'']"
          and s = "''6''" and m = "re_match_here ''5''"]
        target_match_on_strings_only [where k = "''pod''" and r = "[''pod'' \<mapsto> PFloat 5]"
          and x = "PFloat 5" and m = "re_match_here ''5''" and re = re_lite and pat = "''5''"
          and results = "[[''latency'' \<mapsto> PInt 1], [''pod'' \<mapsto> PFloat 5]]"
          and column = "''latency''" and conv = None]
  by (simp add: re_lite_5)

text \<open>
  The claim as stated fails on a number under the filter key: the pattern \<open>5\<close> would
  match the text of the number 5, and the extraction raises instead.
\<close>

theorem numeric_target_value_counterexample:
  "group_values re_lite [[''latency'' \<mapsto> PFloat (1 / 2), ''pod'' \<mapsto> PInt 5]] ''latency''
     (Some (''pod'', ''5'')) None = Inl TypeError"
  by (simp add: group_values_def re_lite_5 target_excludes_def)

section \<open>Unit conversion\<close>

text \<open>
  C4. For a record that passes the filter step and holds a number \<open>v\<close> under the column,
  the loop appends \<open>v / 1e9\<close> for "seconds", \<open>v / 1e6\<close> for "milliseconds",
  \<open>v / 1e3\<close> for "microseconds", and \<open>v\<close> itself when no conversion is requested.
\<close>

theorem unit_conversion_appends:
  assumes "target_excludes key rgx r = Inr False"
    and "r column = Some v"
    and "num_of v = Some x"
  shows "group_values_loop key rgx column (Some ''seconds'') (r # rs) acc =
           group_values_loop key rgx column (Some ''seconds'') rs (acc @ [PFloat (x / 1000000000)]) \<and>
         group_values_loop key rgx column (Some ''milliseconds'') (r # rs) acc =
           group_values_loop key rgx column (Some ''milliseconds'') rs (acc @ [PFloat (x / 1000000)]) \<and>
         group_values_loop key rgx column (Some ''microseconds'') (r # rs) acc =
           group_values_loop key rgx column (Some ''microseconds'') rs (acc @ [PFloat (x / 1000)]) \<and>
         group_values_loop key rgx column None (r # rs) acc =
           group_values_loop key rgx column None rs (acc @ [v])"
  using assms by (simp add: convert_def py_truediv_def)

theorem unit_conversion_appends_witness:
  "group_values re_lite [[''latency'' \<mapsto> PFloat 5000000000, ''pod'' \<mapsto> PStr ''/consumer/1'']]
     ''latency'' None (Some ''seconds'') = Inr [PFloat 5] \<and>
   group_values re_lite [[''latency'' \<mapsto> PFloat 5000000000, ''pod'' \<mapsto> PStr ''/consumer/1'']]
     ''latency'' None (Some ''milliseconds'') = Inr [PFloat 5000] \<and>
   group_values re_lite [[''latency'' \<mapsto> PFloat 5000000000, ''pod'' \<mapsto> PStr ''/consumer/1'']]
     ''latency'' None (Some ''microseconds'') = Inr [PFloat 5000000] \<and>
   group_values re_lite [[''latency'' \<mapsto> PFloat 5000000000, ''pod'' \<mapsto> PStr ''/consumer/1'']]
     ''latency'' None None = Inr [PFloat 5000000000]"
proof -
  let ?r = "[''latency'' \<mapsto> PFloat 5000000000, ''pod'' \<mapsto> PStr ''/consumer/1'']"
  have a: "target_excludes None None ?r = Inr False"
    by (simp add: target_excludes_def)
  have b: "?r ''latency'' = Some (PFloat 5000000000)" by simp
  have c: "num_of (PFloat 5000000000) = Some 5000000000" by simp
  note t = unit_conversion_appends [OF a b c, of "[]" "[]"]
  have s1: "group_values_loop None None ''latency'' (Some ''seconds'') [?r] [] = Inr [PFloat 5]"
    by (subst t [THEN conjunct1]) simp
  have s2: "group_values_loop None None ''latency'' (Some ''milliseconds'') [?r] [] = Inr [PFloat 5000]"
    by (subst t [THEN conjunct2, THEN conjunct1]) simp
  have s3: "group_values_loop None None ''latency'' (Some ''microseconds'') [?r] [] = Inr [PFloat 5000000]"
    by (subst t [THEN conjunct2, THEN conjunct2, THEN conjunct1]) simp
  have s4: "group_values_loop None None ''latency'' None [?r] [] = Inr [PFloat 5000000000]"
    by (subst t [THEN conjunct2, THEN conjunct2, THEN conjunct2]) simp
  show ?thesis
    by (simp only: group_values_def option.case s1 s2 s3 s4 simp_thms)
qed


section \<open>Statistics of numeric lists\<close>

lemma map_insort_key: "map f (insort_key f x xs) = insort (f x) (map f xs)"
  by (induction xs) auto

lemma map_sort_key: "map f (sort_key f xs) = sort (map f xs)"
  by (induction xs) (auto simp: map_insort_key)

lemma num_of_is_num: "is_number v \<Longrightarrow> num_of v = Some (num_val v)"
  by (cases v) auto

lemma num_of_Some_is_num: "num_of v = Some x \<Longrightarrow> is_number v \<and> num_val v = x"
  by (cases v) auto

lemma short_list_cases: "length xs < 2 \<Longrightarrow> xs = [] \<or> (\<exists>x. xs = [x])"
  by (cases xs; cases "tl xs") auto

lemma sorted_py_num: "list_all is_number vs \<Longrightarrow> sorted_py vs = Inr (sort_key num_val vs)"
  using short_list_cases [of vs] by (auto simp: sorted_py_def)

lemma nth_sort_key_num:
  "k < length vs \<Longrightarrow> num_val (sort_key num_val vs ! k) = sort (map num_val vs) ! k"
  using nth_map [of k "sort_key num_val vs" num_val] by (simp add: map_sort_key)

lemma is_number_nth_sort_key:
  "list_all is_number vs \<Longrightarrow> k < length vs \<Longrightarrow> is_number (sort_key num_val vs ! k)"
  using nth_mem [of k "sort_key num_val vs"] by (simp add: list_all_iff)

lemma py_add_num:
  "is_number a \<Longrightarrow> is_number b \<Longrightarrow> \<exists>s. py_add a b = Inr s \<and> is_number s \<and> num_val s = num_val a + num_val b"
  by (cases a; cases b) (auto simp: py_add_def)

lemma median_num:
  assumes num: "list_all is_number vs" and ne: "vs \<noteq> []"
  shows "\<exists>m. median vs = Inr m \<and> num_of m = Some (statistical_median (map num_val vs))"
proof -
  let ?ds = "sort_key num_val vs"
  let ?n = "length vs"
  have n0: "0 < ?n" using ne by simp
  show ?thesis
  proof (cases "odd ?n")
    case True
    then have mod1: "?n mod 2 = 1" by (simp add: odd_iff_mod_2_eq_one)
    have k: "?n div 2 < ?n" using n0 by simp
    have m: "median vs = Inr (?ds ! (?n div 2))"
      using n0 mod1 by (simp add: median_def sorted_py_num [OF num])
    have "num_of (?ds ! (?n div 2)) = Some (sort (map num_val vs) ! (?n div 2))"
      using num_of_is_num [OF is_number_nth_sort_key [OF num k]] nth_sort_key_num [OF k] by simp
    then show ?thesis
      using m True by (simp add: statistical_median_def)
  next
    case False
    then have mod0: "?n mod 2 \<noteq> 1" by (simp add: odd_iff_mod_2_eq_one)
    have i: "?n div 2 < ?n" using n0 by simp
    have i1: "?n div 2 - 1 < ?n" using i by arith
    obtain s where s: "py_add (?ds ! (?n div 2 - 1)) (?ds ! (?n div 2)) = Inr s"
      and sn: "is_number s"
      and sv: "num_val s = num_val (?ds ! (?n div 2 - 1)) + num_val (?ds ! (?n div 2))"
      using py_add_num [OF is_number_nth_sort_key [OF num i1] is_number_nth_sort_key [OF num i]]
      by blast
    have m: "median vs = Inr (PFloat (num_val s / 2))"
      using n0 mod0 s by (simp add: median_def sorted_py_num [OF num] py_truediv_def num_of_is_num [OF sn])
    show ?thesis
      using m False sv nth_sort_key_num [OF i] nth_sort_key_num [OF i1]
      by (simp add: statistical_median_def)
  qed
qed


lemma collect_map_Inr:
  "\<forall>x \<in> set xs. \<exists>y. f x = Inr y \<Longrightarrow>
     \<exists>ys. collect (map f xs) = Inr ys \<and> length ys = length xs \<and>
          (\<forall>k < length xs. f (xs ! k) = Inr (ys ! k))"
proof (induction xs)
  case Nil
  then show ?case by simp
next
  case (Cons x xs)
  then obtain y where y: "f x = Inr y" by auto
  from Cons obtain ys where ys: "collect (map f xs) = Inr ys" "length ys = length xs"
    "\<forall>k < length xs. f (xs ! k) = Inr (ys ! k)" by auto
  have "collect (map f (x # xs)) = Inr (y # ys)" using y ys by simp
  moreover have "\<forall>k < length (x # xs). f ((x # xs) ! k) = Inr ((y # ys) ! k)"
    using y ys by (auto simp: nth_Cons split: nat.split)
  ultimately show ?case using ys by auto
qed

lemma cut_point_num:
  assumes num: "list_all is_number ds" and ld: "2 \<le> length ds"
  shows "\<exists>y. cut_point ds n i = Inr y \<and> is_number y"
proof -
  let ?ld = "int (length ds)"
  let ?j0 = "i * (?ld + 1) div n"
  let ?j = "if ?j0 < 1 then 1 else if ?j0 > ?ld - 1 then ?ld - 1 else ?j0"
  have j: "1 \<le> ?j \<and> ?j \<le> ?ld - 1" using ld by auto
  then have a: "nat (?j - 1) < length ds" and b: "nat ?j < length ds" by linarith+
  have "is_number (ds ! nat (?j - 1))" "is_number (ds ! nat ?j)"
    using num nth_mem [OF a] nth_mem [OF b] by (simp_all add: list_all_iff)
  then show ?thesis
    by (simp add: cut_point_def interpolated_def Let_def)
qed

lemma quantiles_num:
  assumes num: "list_all is_number vs" and ld: "2 \<le> length vs"
  shows "\<exists>q. quantiles vs 100 = Inr q \<and> length q = 99 \<and>
           (\<forall>p. 1 \<le> p \<and> p \<le> 99 \<longrightarrow>
              cut_point (sort_key num_val vs) 100 p = Inr (q ! nat (p - 1)) \<and>
              is_number (q ! nat (p - 1)))"
proof -
  let ?ds = "sort_key num_val vs"
  have dnum: "list_all is_number ?ds" using num by (simp add: list_all_iff)
  have dld: "2 \<le> length ?ds" using ld by simp
  have "\<forall>x \<in> set [1..99]. \<exists>y. cut_point ?ds 100 x = Inr y"
    using cut_point_num [OF dnum dld] by blast
  from collect_map_Inr [OF this]
  obtain q where q: "collect (map (cut_point ?ds 100) [1..99]) = Inr q"
    and len: "length q = length [1..99::int]"
    and nth: "\<forall>k < length [1..99::int]. cut_point ?ds 100 ([1..99] ! k) = Inr (q ! k)"
    by blast
  have l99: "length [1..99::int] = 99" by simp
  have qs: "quantiles vs 100 = Inr q"
    using ld q by (simp add: quantiles_def sorted_py_num [OF num])
  have "\<forall>p. 1 \<le> p \<and> p \<le> 99 \<longrightarrow>
          cut_point ?ds 100 p = Inr (q ! nat (p - 1)) \<and> is_number (q ! nat (p - 1))"
  proof (intro allI impI)
    fix p :: int
    assume p: "1 \<le> p \<and> p \<le> 99"
    then have k: "nat (p - 1) < length [1..99::int]" unfolding l99 by linarith
    have "[1..99::int] ! nat (p - 1) = p" using p by (simp add: nth_upto)
    then have c: "cut_point ?ds 100 p = Inr (q ! nat (p - 1))"
      using nth k by fastforce
    moreover have "is_number (q ! nat (p - 1))"
      using cut_point_num [OF dnum dld, of 100 p] c by simp
    ultimately show "cut_point ?ds 100 p = Inr (q ! nat (p - 1)) \<and> is_number (q ! nat (p - 1))"
      by simp
  qed
  then show ?thesis using qs len l99 by auto
qed

lemma percentile_of_num:
  assumes num: "list_all is_number vs" and ld: "2 \<le> length vs" and p: "1 \<le> p" "p \<le> 99"
  shows "percentile_of vs p = cut_point (sort_key num_val vs) 100 p"
proof -
  obtain q where q: "quantiles vs 100 = Inr q" "length q = 99"
    "cut_point (sort_key num_val vs) 100 p = Inr (q ! nat (p - 1))"
    using quantiles_num [OF num ld] p by blast
  have "py_index q (p - 1) = Inr (q ! nat (p - 1))"
    using p q(2) by (simp add: py_index_def)
  then show ?thesis using q by (simp add: percentile_of_def)
qed

lemma percentile_of_exists:
  assumes "list_all is_number vs" and "2 \<le> length vs" and "1 \<le> p" and "p \<le> 99"
  shows "\<exists>c y. percentile_of vs p = Inr c \<and> num_of c = Some y"
proof -
  obtain c where "cut_point (sort_key num_val vs) 100 p = Inr c" and "is_number c"
    using quantiles_num [OF assms(1) assms(2)] assms(3) assms(4) by blast
  then show ?thesis
    using percentile_of_num [OF assms] num_of_is_num by fastforce
qed

lemma percentile_of_100:
  assumes num: "list_all is_number vs" and ld: "2 \<le> length vs"
  shows "percentile_of vs 100 = Inl IndexError"
proof -
  obtain q where q: "quantiles vs 100 = Inr q" "length q = 99"
    using quantiles_num [OF num ld] by blast
  then show ?thesis by (simp add: percentile_of_def py_index_def)
qed


lemma latency_rows:
  "group_values re [[''latency'' \<mapsto> PFloat (1 / 2)], [''latency'' \<mapsto> PFloat (4 / 5)],
      [''latency'' \<mapsto> PFloat (9 / 10)]] ''latency'' None None =
   Inr [PFloat (1 / 2), PFloat (4 / 5), PFloat (9 / 10)]"
  by (simp add: group_values_def target_excludes_def convert_def)

lemma median_latency: "median [PFloat (1 / 2), PFloat (4 / 5), PFloat (9 / 10)] = Inr (PFloat (4 / 5))"
  by (simp add: median_def sorted_py_def)

lemma p99_latency:
  "percentile_of [PFloat (1 / 2), PFloat (4 / 5), PFloat (9 / 10)] 99 = Inr (PFloat (249 / 250))"
  by (subst percentile_of_num) (simp_all add: cut_point_def interpolated_def)

lemma one_latency_row:
  "group_values re [[''latency'' \<mapsto> PFloat (1 / 2)]] ''latency'' None None = Inr [PFloat (1 / 2)]"
  by (simp add: group_values_def target_excludes_def convert_def)

lemma cut_point_99_latency:
  "cut_point (sort_key num_val [PFloat (1 / 2), PFloat (4 / 5), PFloat (9 / 10)]) 100 99 =
     Inr (PFloat (249 / 250))"
  by (simp add: cut_point_def interpolated_def)

section \<open>The median tolerances\<close>

text \<open>
  C7. For a non-empty extracted list of numbers, \<open>median\<close> returns the statistical
  median: the middle value of the sorted values for an odd length, the average of the
  two middle values for an even length; the median tolerances compare that number with
  the threshold. For the values 0.5, 0.8, 0.9 the median is 0.8 and
  \<open>median_should_be_below\<close> with threshold 1.0 returns true.
\<close>

theorem median_is_statistical_median:
  assumes "group_values re value column target conv = Inr vs"
    and "vs \<noteq> []"
    and "list_all is_number vs"
  shows "\<exists>m. median vs = Inr m \<and>
           num_of m = Some (statistical_median (map num_val vs)) \<and>
           median_should_be_below re column t conv target value =
             Inr (statistical_median (map num_val vs) \<le> t) \<and>
           median_should_be_above re column t target conv value =
             Inr (t \<le> statistical_median (map num_val vs))"
proof -
  obtain m where m: "median vs = Inr m"
    "num_of m = Some (statistical_median (map num_val vs))"
    using median_num [OF assms(3) assms(2)] by blast
  then show ?thesis
    using assms(1)
    by (simp add: median_should_be_below_def median_should_be_above_def py_le_def py_ge_def)
qed

theorem median_is_statistical_median_witness:
  "statistical_median [1 / 2, 4 / 5, 9 / 10] = 4 / 5 \<and>
   statistical_median [3, 1, 4, 2] = 5 / 2 \<and>
   median_should_be_below re_lite ''latency'' 1 None None
     [[''latency'' \<mapsto> PFloat (1 / 2)], [''latency'' \<mapsto> PFloat (4 / 5)],
      [''latency'' \<mapsto> PFloat (9 / 10)]] = Inr True \<and>
   median_should_be_above re_lite ''latency'' 1 None None
     [[''latency'' \<mapsto> PFloat (1 / 2)], [''latency'' \<mapsto> PFloat (4 / 5)],
      [''latency'' \<mapsto> PFloat (9 / 10)]] = Inr False"
proof -
  have s: "statistical_median [1 / 2, 4 / 5, 9 / 10] = 4 / 5"
    by (simp add: statistical_median_def)
  have s': "statistical_median [3, 1, 4, 2] = 5 / 2"
    by (simp add: statistical_median_def)
  have n: "list_all is_number [PFloat (1 / 2), PFloat (4 / 5), PFloat (9 / 10)]" by simp
  have ne: "[PFloat (1 / 2), PFloat (4 / 5), PFloat (9 / 10)] \<noteq> []" by simp
  from median_is_statistical_median [OF latency_rows [of re_lite] ne n, of 1]
  have "median_should_be_below re_lite ''latency'' 1 None None
     [[''latency'' \<mapsto> PFloat (1 / 2)], [''latency'' \<mapsto> PFloat (4 / 5)],
      [''latency'' \<mapsto> PFloat (9 / 10)]] = Inr True \<and>
   median_should_be_above re_lite ''latency'' 1 None None
     [[''latency'' \<mapsto> PFloat (1 / 2)], [''latency'' \<mapsto> PFloat (4 / 5)],
      [''latency'' \<mapsto> PFloat (9 / 10)]] = Inr False"
    by (auto simp: s)
  then show ?thesis using s s' by simp
qed

section \<open>The direction of the comparisons\<close>

text \<open>
  C3. Whenever the statistic of the extracted list is computed, the "below" tolerances
  return whether it is less than or equal to the threshold and the "above" tolerances
  whether it is greater than or equal to it. Both include equality: a statistic equal
  to the threshold makes the below and the above variant true. The median of every
  non-empty list of numbers is computed, and so is every percentile from 1 to 99 of a
  list of at least two numbers.
\<close>

theorem comparisons_inclusive:
  assumes "group_values re value column target conv = Inr vs"
  shows "(median vs = Inr m \<and> num_of m = Some x \<longrightarrow>
            median_should_be_below re column t conv target value = Inr (x \<le> t) \<and>
            median_should_be_above re column t target conv value = Inr (t \<le> x)) \<and>
         (percentile_of vs p = Inr c \<and> num_of c = Some y \<longrightarrow>
            percentile_should_be_below re column t p target conv value = Inr (y \<le> t) \<and>
            percentile_should_be_above re column t p target conv value = Inr (t \<le> y)) \<and>
         (median vs = Inr m \<and> num_of m = Some t \<longrightarrow>
            median_should_be_below re column t conv target value = Inr True \<and>
            median_should_be_above re column t target conv value = Inr True) \<and>
         (percentile_of vs p = Inr c \<and> num_of c = Some t \<longrightarrow>
            percentile_should_be_below re column t p target conv value = Inr True \<and>
            percentile_should_be_above re column t p target conv value = Inr True) \<and>
         (vs \<noteq> [] \<and> list_all is_number vs \<longrightarrow> (\<exists>m x. median vs = Inr m \<and> num_of m = Some x)) \<and>
         (2 \<le> length vs \<and> list_all is_number vs \<and> 1 \<le> p \<and> p \<le> 99 \<longrightarrow>
            (\<exists>c y. percentile_of vs p = Inr c \<and> num_of c = Some y))"
proof -
  have a: "median vs = Inr m \<and> num_of m = Some x \<longrightarrow>
            median_should_be_below re column t conv target value = Inr (x \<le> t) \<and>
            median_should_be_above re column t target conv value = Inr (t \<le> x)" for x
    using assms
    by (simp add: median_should_be_below_def median_should_be_above_def py_le_def py_ge_def)
  have b: "percentile_of vs p = Inr c \<and> num_of c = Some y \<longrightarrow>
            percentile_should_be_below re column t p target conv value = Inr (y \<le> t) \<and>
            percentile_should_be_above re column t p target conv value = Inr (t \<le> y)" for y
    using assms
    by (simp add: percentile_should_be_below_def percentile_should_be_above_def py_le_def py_ge_def)
  have c: "vs \<noteq> [] \<and> list_all is_number vs \<longrightarrow> (\<exists>m x. median vs = Inr m \<and> num_of m = Some x)"
    using median_num [of vs] by blast
  have d: "2 \<le> length vs \<and> list_all is_number vs \<and> 1 \<le> p \<and> p \<le> 99 \<longrightarrow>
            (\<exists>c y. percentile_of vs p = Inr c \<and> num_of c = Some y)"
    using percentile_of_exists [of vs p] by blast
  show ?thesis
    using a [of x] a [of t] b [of y] b [of t] c d by simp
qed

theorem comparisons_inclusive_witness:
  "median_should_be_below re_lite ''latency'' (4 / 5) None None
     [[''latency'' \<mapsto> PFloat (1 / 2)], [''latency'' \<mapsto> PFloat (4 / 5)],
      [''latency'' \<mapsto> PFloat (9 / 10)]] = Inr True \<and>
   median_should_be_above re_lite ''latency'' (4 / 5) None None
     [[''latency'' \<mapsto> PFloat (1 / 2)], [''latency'' \<mapsto> PFloat (4 / 5)],
      [''latency'' \<mapsto> PFloat (9 / 10)]] = Inr True \<and>
   percentile_should_be_below re_lite ''latency'' (249 / 250) 99 None None
     [[''latency'' \<mapsto> PFloat (1 / 2)], [''latency'' \<mapsto> PFloat (4 / 5)],
      [''latency'' \<mapsto> PFloat (9 / 10)]] = Inr True \<and>
   percentile_should_be_above re_lite ''latency'' (249 / 250) 99 None None
     [[''latency'' \<mapsto> PFloat (1 / 2)], [''latency'' \<mapsto> PFloat (4 / 5)],
      [''latency'' \<mapsto> PFloat (9 / 10)]] = Inr True"
  using comparisons_inclusive [OF latency_rows [of re_lite], where m = "PFloat (4 / 5)"
          and t = "4 / 5"]
        comparisons_inclusive [OF latency_rows [of re_lite], where c = "PFloat (249 / 250)"
          and p = 99 and t = "249 / 250"]
  by (simp add: median_latency p99_latency)

section \<open>The percentile tolerances\<close>

text \<open>
  C5, as amended. For a percentile \<open>p\<close> from 1 to 99 and an extracted list of at least two
  numbers, \<open>quantiles\<close> returns the 99 cut points of the 100-quantile partition, the
  entry at index \<open>p - 1\<close> is the cut point number \<open>p\<close> of the sorted values, and the
  percentile tolerances compare it with the threshold. With fewer than two values they
  raise \<open>ActivityFailed\<close> with the message "failed to compute percentiles".
\<close>

theorem percentile_selects_cut_point:
  assumes "group_values re value column target conv = Inr vs"
  shows "(2 \<le> length vs \<and> list_all is_number vs \<and> 1 \<le> p \<and> p \<le> 99 \<longrightarrow>
            (\<exists>q c x. quantiles vs 100 = Inr q \<and> length q = 99 \<and>
               py_index q (p - 1) = Inr c \<and>
               cut_point (sort_key num_val vs) 100 p = Inr c \<and>
               num_of c = Some x \<and>
               percentile_should_be_below re column t p target conv value = Inr (x \<le> t) \<and>
               percentile_should_be_above re column t p target conv value = Inr (t \<le> x))) \<and>
         (length vs < 2 \<longrightarrow>
            percentile_should_be_below re column t p target conv value =
              Inl (ActivityFailed ''failed to compute percentiles'') \<and>
            percentile_should_be_above re column t p target conv value =
              Inl (ActivityFailed ''failed to compute percentiles''))"
proof -
  have a: "\<exists>q c x. quantiles vs 100 = Inr q \<and> length q = 99 \<and>
               py_index q (p - 1) = Inr c \<and>
               cut_point (sort_key num_val vs) 100 p = Inr c \<and>
               num_of c = Some x \<and>
               percentile_should_be_below re column t p target conv value = Inr (x \<le> t) \<and>
               percentile_should_be_above re column t p target conv value = Inr (t \<le> x)"
    if h: "2 \<le> length vs" "list_all is_number vs" "1 \<le> p" "p \<le> 99"
  proof -
    obtain q where q: "quantiles vs 100 = Inr q" "length q = 99"
      "cut_point (sort_key num_val vs) 100 p = Inr (q ! nat (p - 1))"
      "is_number (q ! nat (p - 1))"
      using quantiles_num [OF h(2) h(1)] h(3) h(4) by blast
    let ?c = "q ! nat (p - 1)"
    have i: "py_index q (p - 1) = Inr ?c"
      using h(3) h(4) q(2) by (simp add: py_index_def)
    have n: "num_of ?c = Some (num_val ?c)" using q(4) by (rule num_of_is_num)
    have po: "percentile_of vs p = Inr ?c" using q(1) i by (simp add: percentile_of_def)
    have "percentile_should_be_below re column t p target conv value = Inr (num_val ?c \<le> t) \<and>
          percentile_should_be_above re column t p target conv value = Inr (t \<le> num_val ?c)"
      using assms po n
      by (simp add: percentile_should_be_below_def percentile_should_be_above_def py_le_def py_ge_def)
    then show ?thesis using q i n by blast
  qed
  have b: "length vs < 2 \<longrightarrow>
            percentile_should_be_below re column t p target conv value =
              Inl (ActivityFailed ''failed to compute percentiles'') \<and>
            percentile_should_be_above re column t p target conv value =
              Inl (ActivityFailed ''failed to compute percentiles'')"
    using assms
    by (simp add: percentile_should_be_below_def percentile_should_be_above_def percentile_of_short)
  show ?thesis using a b by blast
qed


theorem percentile_selects_cut_point_witness:
  "percentile_should_be_below re_lite ''latency'' 1 99 None None
     [[''latency'' \<mapsto> PFloat (1 / 2)], [''latency'' \<mapsto> PFloat (4 / 5)],
      [''latency'' \<mapsto> PFloat (9 / 10)]] = Inr True \<and>
   percentile_should_be_above re_lite ''latency'' 1 99 None None
     [[''latency'' \<mapsto> PFloat (1 / 2)], [''latency'' \<mapsto> PFloat (4 / 5)],
      [''latency'' \<mapsto> PFloat (9 / 10)]] = Inr False \<and>
   percentile_should_be_below re_lite ''latency'' 1 99 None None
     [[''latency'' \<mapsto> PFloat (1 / 2)]] = Inl (ActivityFailed ''failed to compute percentiles'') \<and>
   percentile_should_be_above re_lite ''latency'' 1 99 None None
     [[''latency'' \<mapsto> PFloat (1 / 2)]] = Inl (ActivityFailed ''failed to compute percentiles'')"
proof -
  from percentile_selects_cut_point [OF latency_rows [of re_lite], of 99 1]
  obtain c x where c: "cut_point (sort_key num_val [PFloat (1 / 2), PFloat (4 / 5), PFloat (9 / 10)]) 100 99 = Inr c"
    and x: "num_of c = Some x"
    and r: "percentile_should_be_below re_lite ''latency'' 1 99 None None
     [[''latency'' \<mapsto> PFloat (1 / 2)], [''latency'' \<mapsto> PFloat (4 / 5)],
      [''latency'' \<mapsto> PFloat (9 / 10)]] = Inr (x \<le> 1)"
     "percentile_should_be_above re_lite ''latency'' 1 99 None None
     [[''latency'' \<mapsto> PFloat (1 / 2)], [''latency'' \<mapsto> PFloat (4 / 5)],
      [''latency'' \<mapsto> PFloat (9 / 10)]] = Inr (1 \<le> x)"
    by auto
  from c [unfolded cut_point_99_latency] have "c = PFloat (249 / 250)" by simp
  then have "x = 249 / 250" using x by simp
  then have a: "percentile_should_be_below re_lite ''latency'' 1 99 None None
     [[''latency'' \<mapsto> PFloat (1 / 2)], [''latency'' \<mapsto> PFloat (4 / 5)],
      [''latency'' \<mapsto> PFloat (9 / 10)]] = Inr True"
     "percentile_should_be_above re_lite ''latency'' 1 99 None None
     [[''latency'' \<mapsto> PFloat (1 / 2)], [''latency'' \<mapsto> PFloat (4 / 5)],
      [''latency'' \<mapsto> PFloat (9 / 10)]] = Inr False"
    using r by simp_all
  from percentile_selects_cut_point [OF one_latency_row [of re_lite], of 99 1]
  have b: "percentile_should_be_below re_lite ''latency'' 1 99 None None
     [[''latency'' \<mapsto> PFloat (1 / 2)]] = Inl (ActivityFailed ''failed to compute percentiles'')"
     "percentile_should_be_above re_lite ''latency'' 1 99 None None
     [[''latency'' \<mapsto> PFloat (1 / 2)]] = Inl (ActivityFailed ''failed to compute percentiles'')"
    by simp_all
  show ?thesis using a b by simp
qed

text \<open>
  The claim as stated fails for the percentile 100: the partition has 99 cut points, so
  the index 99 is out of range and the \<open>IndexError\<close> is not caught.
\<close>

theorem percentile_100_counterexample:
  "percentile_should_be_below re_lite ''latency'' 1 100 None None
     [[''latency'' \<mapsto> PFloat (1 / 2)], [''latency'' \<mapsto> PFloat (4 / 5)],
      [''latency'' \<mapsto> PFloat (9 / 10)]] = Inl IndexError \<and>
   percentile_should_be_above re_lite ''latency'' 1 100 None None
     [[''latency'' \<mapsto> PFloat (1 / 2)], [''latency'' \<mapsto> PFloat (4 / 5)],
      [''latency'' \<mapsto> PFloat (9 / 10)]] = Inl IndexError"
  by (simp add: percentile_should_be_below_def percentile_should_be_above_def latency_rows
        percentile_of_100)


section \<open>Connection parameters\<close>

lemma get_auth_Inr_iff:
  "get_auth d env cfg sec = Inr a \<longleftrightarrow>
     (\<exists>cid k. getenv env ''PIXIE_CLUSTER_ID'' (or_empty cfg ''pixie_cluster_id'') = Some cid \<and>
        cid \<noteq> [] \<and>
        getenv env ''PIXIE_API_KEY'' (or_empty sec ''api_key'') = Some k \<and> k \<noteq> [] \<and>
        a = \<lparr>px_cluster_id = cid, px_key = k,
             px_server_url = get_or env ''PIXIE_SERVER_URL''
                               (get_or (or_empty cfg) ''px_server_url'' d)\<rparr>)"
  by (auto simp: get_auth_def Let_def split: option.splits)

lemma get_auth_both_layers:
  "get_auth ''work.withpixie.ai:443''
     [''PIXIE_CLUSTER_ID'' \<mapsto> ''from-env'', ''PIXIE_API_KEY'' \<mapsto> ''key-env'']
     (Some [''pixie_cluster_id'' \<mapsto> ''from-config''])
     (Some [''api_key'' \<mapsto> ''key-secret'']) =
   Inr \<lparr>px_cluster_id = ''from-env'', px_key = ''key-env'',
        px_server_url = ''work.withpixie.ai:443''\<rparr>"
  by (simp add: get_auth_def getenv_def or_empty_def get_or_def)

text \<open>
  C8, as amended. Each connection parameter is resolved from the environment variable
  first and from the configuration (the secrets for the API key) only when the
  variable is not set; the server URL alone falls back to a default. \<open>get_auth\<close>, and
  with it \<open>connect\<close>, raises \<open>InvalidExperiment\<close> when the cluster identifier or the API
  key resolves to nothing or to the empty string.
\<close>

theorem get_auth_environment_first:
  "(get_auth d env cfg sec = Inr a \<and> env ''PIXIE_CLUSTER_ID'' = Some v \<longrightarrow> px_cluster_id a = v) \<and>
   (get_auth d env cfg sec = Inr a \<and> env ''PIXIE_CLUSTER_ID'' = None \<longrightarrow>
      or_empty cfg ''pixie_cluster_id'' = Some (px_cluster_id a)) \<and>
   (get_auth d env cfg sec = Inr a \<and> env ''PIXIE_API_KEY'' = Some v \<longrightarrow> px_key a = v) \<and>
   (get_auth d env cfg sec = Inr a \<and> env ''PIXIE_API_KEY'' = None \<longrightarrow>
      or_empty sec ''api_key'' = Some (px_key a)) \<and>
   (get_auth d env cfg sec = Inr a \<and> env ''PIXIE_SERVER_URL'' = Some v \<longrightarrow> px_server_url a = v) \<and>
   (get_auth d env cfg sec = Inr a \<and> env ''PIXIE_SERVER_URL'' = None \<and>
      or_empty cfg ''px_server_url'' = Some v \<longrightarrow> px_server_url a = v) \<and>
   (get_auth d env cfg sec = Inr a \<and> env ''PIXIE_SERVER_URL'' = None \<and>
      or_empty cfg ''px_server_url'' = None \<longrightarrow> px_server_url a = d) \<and>
   (getenv env ''PIXIE_CLUSTER_ID'' (or_empty cfg ''pixie_cluster_id'') = None \<or>
    getenv env ''PIXIE_CLUSTER_ID'' (or_empty cfg ''pixie_cluster_id'') = Some [] \<longrightarrow>
      get_auth d env cfg sec = Inl (InvalidExperiment missing_cluster_id) \<and>
      connect px d env cfg sec = Inl (InvalidExperiment missing_cluster_id)) \<and>
   (getenv env ''PIXIE_CLUSTER_ID'' (or_empty cfg ''pixie_cluster_id'') = Some cid \<and> cid \<noteq> [] \<and>
    (getenv env ''PIXIE_API_KEY'' (or_empty sec ''api_key'') = None \<or>
     getenv env ''PIXIE_API_KEY'' (or_empty sec ''api_key'') = Some []) \<longrightarrow>
      get_auth d env cfg sec = Inl (InvalidExperiment missing_api_key) \<and>
      connect px d env cfg sec = Inl (InvalidExperiment missing_api_key)) \<and>
   (env ''PIXIE_CLUSTER_ID'' = None \<and> or_empty cfg ''pixie_cluster_id'' = None \<longrightarrow>
      connect px d env cfg sec = Inl (InvalidExperiment missing_cluster_id))"
proof -
  have a1: "get_auth d env cfg sec = Inr a \<and> env ''PIXIE_CLUSTER_ID'' = Some v \<longrightarrow> px_cluster_id a = v"
    by (auto simp: get_auth_Inr_iff getenv_def)
  have a2: "get_auth d env cfg sec = Inr a \<and> env ''PIXIE_CLUSTER_ID'' = None \<longrightarrow>
      or_empty cfg ''pixie_cluster_id'' = Some (px_cluster_id a)"
    by (auto simp: get_auth_Inr_iff getenv_def)
  have a3: "get_auth d env cfg sec = Inr a \<and> env ''PIXIE_API_KEY'' = Some v \<longrightarrow> px_key a = v"
    by (auto simp: get_auth_Inr_iff getenv_def)
  have a4: "get_auth d env cfg sec = Inr a \<and> env ''PIXIE_API_KEY'' = None \<longrightarrow>
      or_empty sec ''api_key'' = Some (px_key a)"
    by (auto simp: get_auth_Inr_iff getenv_def)
  have a5: "get_auth d env cfg sec = Inr a \<and> env ''PIXIE_SERVER_URL'' = Some v \<longrightarrow> px_server_url a = v"
    by (auto simp: get_auth_Inr_iff get_or_def)
  have a6: "get_auth d env cfg sec = Inr a \<and> env ''PIXIE_SERVER_URL'' = None \<and>
      or_empty cfg ''px_server_url'' = Some v \<longrightarrow> px_server_url a = v"
    by (auto simp: get_auth_Inr_iff get_or_def)
  have a7: "get_auth d env cfg sec = Inr a \<and> env ''PIXIE_SERVER_URL'' = None \<and>
      or_empty cfg ''px_server_url'' = None \<longrightarrow> px_server_url a = d"
    by (auto simp: get_auth_Inr_iff get_or_def)
  have a8: "getenv env ''PIXIE_CLUSTER_ID'' (or_empty cfg ''pixie_cluster_id'') = None \<or>
    getenv env ''PIXIE_CLUSTER_ID'' (or_empty cfg ''pixie_cluster_id'') = Some [] \<longrightarrow>
      get_auth d env cfg sec = Inl (InvalidExperiment missing_cluster_id) \<and>
      connect px d env cfg sec = Inl (InvalidExperiment missing_cluster_id)"
    by (auto simp: connect_def get_auth_def Let_def)
  have a9: "getenv env ''PIXIE_CLUSTER_ID'' (or_empty cfg ''pixie_cluster_id'') = Some cid \<and> cid \<noteq> [] \<and>
    (getenv env ''PIXIE_API_KEY'' (or_empty sec ''api_key'') = None \<or>
     getenv env ''PIXIE_API_KEY'' (or_empty sec ''api_key'') = Some []) \<longrightarrow>
      get_auth d env cfg sec = Inl (InvalidExperiment missing_api_key) \<and>
      connect px d env cfg sec = Inl (InvalidExperiment missing_api_key)"
    by (auto simp: connect_def get_auth_def Let_def)
  have a10: "env ''PIXIE_CLUSTER_ID'' = None \<and> or_empty cfg ''pixie_cluster_id'' = None \<longrightarrow>
      connect px d env cfg sec = Inl (InvalidExperiment missing_cluster_id)"
    by (auto simp: connect_def get_auth_def Let_def getenv_def)
  show ?thesis
    using a1 a2 a3 a4 a5 a6 a7 a8 a9 a10 by blast
qed

theorem get_auth_environment_first_witness:
  "get_auth ''work.withpixie.ai:443''
     [''PIXIE_CLUSTER_ID'' \<mapsto> ''from-env'', ''PIXIE_API_KEY'' \<mapsto> ''key-env'']
     (Some [''pixie_cluster_id'' \<mapsto> ''from-config''])
     (Some [''api_key'' \<mapsto> ''key-secret'']) =
     Inr \<lparr>px_cluster_id = ''from-env'', px_key = ''key-env'',
          px_server_url = ''work.withpixie.ai:443''\<rparr> \<and>
   get_auth ''work.withpixie.ai:443'' Map.empty (Some [''pixie_cluster_id'' \<mapsto> ''abc'']) (Some Map.empty) =
     Inl (InvalidExperiment missing_api_key) \<and>
   get_auth ''work.withpixie.ai:443'' Map.empty None (Some [''api_key'' \<mapsto> ''secret'']) =
     Inl (InvalidExperiment missing_cluster_id)"
  using get_auth_environment_first [where d = "''work.withpixie.ai:443''"
          and env = "[''PIXIE_CLUSTER_ID'' \<mapsto> ''from-env'', ''PIXIE_API_KEY'' \<mapsto> ''key-env'']"
          and cfg = "Some [''pixie_cluster_id'' \<mapsto> ''from-config'']"
          and sec = "Some [''api_key'' \<mapsto> ''key-secret'']"
          and a = "\<lparr>px_cluster_id = ''from-env'', px_key = ''key-env'',
                     px_server_url = ''work.withpixie.ai:443''\<rparr>"
          and v = "''from-env''" and px = Inr]
        get_auth_environment_first [where d = "''work.withpixie.ai:443''" and env = Map.empty
          and cfg = "Some [''pixie_cluster_id'' \<mapsto> ''abc'']" and sec = "Some Map.empty"
          and cid = "''abc''" and px = Inr
          and a = "\<lparr>px_cluster_id = [], px_key = [], px_server_url = []\<rparr>"]
        get_auth_environment_first [where d = "''work.withpixie.ai:443''" and env = Map.empty
          and cfg = None and sec = "Some [''api_key'' \<mapsto> ''secret'']" and px = Inr
          and a = "\<lparr>px_cluster_id = [], px_key = [], px_server_url = []\<rparr>"]
  by (simp add: get_auth_both_layers getenv_def or_empty_def)

text \<open>
  The claim as stated fails when both layers hold a value: the configuration and the
  secrets are given, and the environment wins.
\<close>

theorem configuration_first_counterexample:
  "[''pixie_cluster_id'' \<mapsto> ''from-config''] ''pixie_cluster_id'' = Some ''from-config'' \<and>
   [''api_key'' \<mapsto> ''key-secret''] ''api_key'' = Some ''key-secret'' \<and>
   get_auth ''work.withpixie.ai:443''
     [''PIXIE_CLUSTER_ID'' \<mapsto> ''from-env'', ''PIXIE_API_KEY'' \<mapsto> ''key-env'']
     (Some [''pixie_cluster_id'' \<mapsto> ''from-config''])
     (Some [''api_key'' \<mapsto> ''key-secret'']) =
   Inr \<lparr>px_cluster_id = ''from-env'', px_key = ''key-env'',
        px_server_url = ''work.withpixie.ai:443''\<rparr>"
  by (simp add: get_auth_def getenv_def or_empty_def get_or_def)


section \<open>The derived timestamp\<close>












section \<open>The record set after a tolerance\<close>

lemma group_values_loop_st_eq:
  "group_values_loop_st key rgx column conv i results acc =
     (group_values_loop key rgx column conv (drop i results) acc, results)"
proof (induction key rgx column conv i results acc rule: group_values_loop_st.induct)
  case (1 key rgx column conv i results acc)
  show ?case
  proof (cases "i < length results")
    case False
    then show ?thesis
      by (subst group_values_loop_st.simps) simp
  next
    case True
    then have d: "drop i results = results ! i # drop (i + 1) results"
      by (simp add: Cons_nth_drop_Suc)
    show ?thesis
    proof (cases "target_excludes key rgx (results ! i)")
      case (Inl e)
      then show ?thesis
        using True by (subst group_values_loop_st.simps) (simp add: d)
    next
      case (Inr b)
      show ?thesis
      proof (cases b)
        case True
        have ih: "group_values_loop_st key rgx column conv (i + 1) results acc =
            (group_values_loop key rgx column conv (drop (i + 1) results) acc, results)"
          using "1.IH"(1) \<open>i < length results\<close> Inr True by simp
        show ?thesis
          using \<open>i < length results\<close> Inr True ih
          by (subst group_values_loop_st.simps) (simp add: d)
      next
        case False
        show ?thesis
        proof (cases "(results ! i) column")
          case None
          have ih: "group_values_loop_st key rgx column conv (i + 1) results acc =
              (group_values_loop key rgx column conv (drop (i + 1) results) acc, results)"
            using "1.IH"(2) \<open>i < length results\<close> Inr False None by simp
          show ?thesis
            using \<open>i < length results\<close> Inr False None ih
            by (subst group_values_loop_st.simps) (simp add: d)
        next
          case (Some v)
          show ?thesis
          proof (cases "convert conv v")
            case (Inl e)
            with Inr False Some \<open>i < length results\<close> show ?thesis
              by (subst group_values_loop_st.simps) (simp add: d)
          next
            case c: (Inr v')
            have ih: "group_values_loop_st key rgx column conv (i + 1) results (acc @ [v']) =
                (group_values_loop key rgx column conv (drop (i + 1) results) (acc @ [v']), results)"
              using "1.IH"(3) \<open>i < length results\<close> Inr False Some c by simp
            show ?thesis
              using \<open>i < length results\<close> Inr False Some c ih
              by (subst group_values_loop_st.simps) (simp add: d)
          qed
        qed
      qed
    qed
  qed
qed

lemma group_values_st_eq:
  "group_values_st re results column target conv =
     (group_values re results column target conv, results)"
  by (simp add: group_values_st_def group_values_def group_values_loop_st_eq
        split: option.split prod.split)

text \<open>
  C10. Each of the four tolerances leaves the record set as it found it, whether it
  returns a boolean or raises: the record set after the call is the one passed in,
  and the outcome is that of the tolerance read as a pure function.
\<close>

theorem record_set_unchanged:
  "median_should_be_below_st re column t conv target value =
     (median_should_be_below re column t conv target value, value) \<and>
   median_should_be_above_st re column t target conv value =
     (median_should_be_above re column t target conv value, value) \<and>
   percentile_should_be_below_st re column t p target conv value =
     (percentile_should_be_below re column t p target conv value, value) \<and>
   percentile_should_be_above_st re column t p target conv value =
     (percentile_should_be_above re column t p target conv value, value)"
proof -
  have a: "median_should_be_below_st re column t conv target value =
     (median_should_be_below re column t conv target value, value)"
    by (simp add: median_should_be_below_st_def median_should_be_below_def group_values_st_eq
          split: sum.split error.split)
  have b: "median_should_be_above_st re column t target conv value =
     (median_should_be_above re column t target conv value, value)"
    by (simp add: median_should_be_above_st_def median_should_be_above_def group_values_st_eq
          split: sum.split error.split)
  have c: "percentile_should_be_below_st re column t p target conv value =
     (percentile_should_be_below re column t p target conv value, value)"
    by (simp add: percentile_should_be_below_st_def percentile_should_be_below_def
          group_values_st_eq split: sum.split)
  have d: "percentile_should_be_above_st re column t p target conv value =
     (percentile_should_be_above re column t p target conv value, value)"
    by (simp add: percentile_should_be_above_st_def percentile_should_be_above_def
          group_values_st_eq split: sum.split)
  show ?thesis using a b c d by simp
qed


theorem record_set_unchanged_witness:
  "median_should_be_below_st re_lite ''latency'' 1 None None
     [[''latency'' \<mapsto> PFloat (1 / 2)], [''latency'' \<mapsto> PFloat (4 / 5)],
      [''latency'' \<mapsto> PFloat (9 / 10)]] =
   (Inr True,
     [[''latency'' \<mapsto> PFloat (1 / 2)], [''latency'' \<mapsto> PFloat (4 / 5)],
      [''latency'' \<mapsto> PFloat (9 / 10)]]) \<and>
   percentile_should_be_above_st re_lite ''latency'' 1 99 None None [] =
   (Inl (ActivityFailed ''failed to compute percentiles''), [])"
proof -
  have a: "median_should_be_below re_lite ''latency'' 1 None None
     [[''latency'' \<mapsto> PFloat (1 / 2)], [''latency'' \<mapsto> PFloat (4 / 5)],
      [''latency'' \<mapsto> PFloat (9 / 10)]] = Inr True"
    by (simp add: median_should_be_below_def latency_rows median_latency py_le_def)
  have b: "percentile_should_be_above re_lite ''latency'' 1 99 None None [] =
     Inl (ActivityFailed ''failed to compute percentiles'')"
    by (simp add: percentile_should_be_above_def group_values_def percentile_of_short)
  show ?thesis
    unfolding record_set_unchanged [THEN conjunct1]
      record_set_unchanged [THEN conjunct2, THEN conjunct2, THEN conjunct2]
    using a b by simp
qed

end
